theory Spec2Isabelle
  imports Complex_Main "HOL-Library.Sublist" "HOL-Library.Product_Lexorder"
begin

section \<open>Python values and errors\<close>

text \<open>
  The functions of \<^verbatim>\<open>src/utils.py\<close> raise \<^verbatim>\<open>ValueError\<close> and nothing else on the
  paths modelled here: from \<^verbatim>\<open>parse_eis_filename\<close> (the explicit \<^verbatim>\<open>raise\<close> and the
  failing \<^verbatim>\<open>int(...)\<close>), from the column assignment of \<^verbatim>\<open>load_single_eis\<close> and from
  \<^verbatim>\<open>np.argmax\<close> on an empty array. A function that can raise returns \<open>error + 'a\<close>.
\<close>

datatype error = ValueError

section \<open>Strings: the Python operations the decoder uses\<close>


text \<open>
  \<^verbatim>\<open>str.replace(old, new)\<close> for a non-empty \<open>old\<close>: every non-overlapping
  occurrence, found from the left, is replaced.
\<close>

function replace :: "string \<Rightarrow> string \<Rightarrow> string \<Rightarrow> string" where
  "replace old new [] = []"
| "replace old new (c # cs) =
     (if old \<noteq> [] \<and> prefix old (c # cs)
      then new @ replace old new (drop (length old) (c # cs))
      else c # replace old new cs)"
  by pat_completeness auto
termination
  by (relation "measure (\<lambda>(old, new, s). length s)") auto


definition is_digit :: "char \<Rightarrow> bool" where
  "is_digit c \<longleftrightarrow> (let n = (of_char c :: nat) in 48 \<le> n \<and> n \<le> 57)"

definition digit_val :: "char \<Rightarrow> nat" where
  "digit_val c = of_char c - 48"

definition digit_char :: "nat \<Rightarrow> char" where
  "digit_char d = char_of (48 + d)"

definition digits_val :: "string \<Rightarrow> nat" where
  "digits_val ds = foldl (\<lambda>a c. 10 * a + digit_val c) 0 ds"



text \<open>\<^verbatim>\<open>str(n)\<close> on an integer: the decimal digits, with a minus sign when negative.\<close>

fun show_nat :: "nat \<Rightarrow> string" where
  "show_nat n =
     (if n < 10 then [digit_char n] else show_nat (n div 10) @ [digit_char (n mod 10)])"

declare show_nat.simps [simp del]


section \<open>Filename Decoder: \<^verbatim>\<open>parse_eis_filename\<close>\<close>



record test_identity =
  cell_id :: int
  soh_pct :: int
  temp_c :: int
  soc_pct :: int
  capacity_code :: int





section \<open>Spectrum Loader: \<^verbatim>\<open>load_single_eis\<close>\<close>

text \<open>
  A float is modelled by its class: a finite value, taken as a real number (rounding is
  not modelled), one of the two infinities, or NaN.
\<close>

datatype float64 = Finite real | PosInf | NegInf | NaN

text \<open>
  \<^verbatim>\<open>pd.read_excel(path, header=None)\<close> is outside the repository. Its result is
  modelled as the list of the sheet's rows, each a list of cells: a number, a text or an
  empty cell. The frame has as many columns as the longest row, and a shorter row is
  filled up with empty cells.
\<close>

datatype cell = Num float64 | Text string | Blank

definition ncols :: "cell list list \<Rightarrow> nat" where
  "ncols df = foldr (\<lambda>r n. max (length r) n) df 0"

definition cell_at :: "cell list \<Rightarrow> nat \<Rightarrow> cell" where
  "cell_at r j = (if j < length r then r ! j else Blank)"

text \<open>
  \<^verbatim>\<open>pd.to_numeric(..., errors="coerce")\<close> on one cell. A number stays, an empty cell
  is NaN, and a text is read as a decimal literal: white space around it is skipped, then
  an optional sign, digits with an optional decimal point (a digit on one side at
  least), and an optional exponent. The words \<^verbatim>\<open>inf\<close> and \<^verbatim>\<open>infinity\<close>, in any
  case and with an optional sign, are read as the infinities. Every other text is NaN:
  that is what \<^verbatim>\<open>errors="coerce"\<close> asks for. A literal beyond the range of a double
  is left finite here.
\<close>

definition is_space_ascii :: "char \<Rightarrow> bool" where
  "is_space_ascii c \<longleftrightarrow> (let n = (of_char c :: nat) in n = 32 \<or> (9 \<le> n \<and> n \<le> 13))"

definition lower_char :: "char \<Rightarrow> char" where
  "lower_char c = (let n = (of_char c :: nat) in if 65 \<le> n \<and> n \<le> 90 then char_of (n + 32) else c)"

definition take_sign :: "string \<Rightarrow> bool \<times> string" where
  "take_sign s =
     (case s of
        [] \<Rightarrow> (False, [])
      | c # r \<Rightarrow> if c = CHR ''-'' then (True, r) else if c = CHR ''+'' then (False, r) else (False, s))"

definition parse_exponent :: "string \<Rightarrow> int option" where
  "parse_exponent r =
     (case r of
        [] \<Rightarrow> Some 0
      | c # r' \<Rightarrow>
          if c = CHR ''e'' \<or> c = CHR ''E''
          then (case take_sign r' of
                  (neg, ds) \<Rightarrow>
                    if ds \<noteq> [] \<and> list_all is_digit ds
                    then Some (if neg then - int (digits_val ds) else int (digits_val ds))
                    else None)
          else None)"

definition parse_decimal :: "string \<Rightarrow> real option" where
  "parse_decimal u =
     (let ip = takeWhile is_digit u;
          r1 = dropWhile is_digit u;
          dot = (r1 \<noteq> [] \<and> hd r1 = CHR ''.'');
          fp = (if dot then takeWhile is_digit (tl r1) else []);
          r2 = (if dot then dropWhile is_digit (tl r1) else r1)
      in if ip = [] \<and> fp = [] then None
         else (case parse_exponent r2 of
                 None \<Rightarrow> None
               | Some e \<Rightarrow>
                   Some (if int (length fp) \<le> e
                         then real (digits_val (ip @ fp)) * 10 ^ nat (e - int (length fp))
                         else real (digits_val (ip @ fp)) / 10 ^ nat (int (length fp) - e))))"

definition str_to_float :: "string \<Rightarrow> float64" where
  "str_to_float s =
     (case take_sign (rev (dropWhile is_space_ascii (rev (dropWhile is_space_ascii s)))) of
        (neg, u) \<Rightarrow>
          (case parse_decimal u of
             Some r \<Rightarrow> Finite (if neg then - r else r)
           | None \<Rightarrow>
               (case take_sign (map lower_char s) of
                  (neg', w) \<Rightarrow>
                    if w = ''inf'' \<or> w = ''infinity''
                    then (if neg' then NegInf else PosInf)
                    else NaN)))"

fun to_numeric :: "cell \<Rightarrow> float64" where
  "to_numeric (Num v) = v"
| "to_numeric (Text s) = str_to_float s"
| "to_numeric Blank = NaN"

record 'v spectrum_point =
  frequency_hz :: 'v
  z_real_ohm :: 'v
  z_imag_ohm :: 'v

text \<open>
  \<^verbatim>\<open>load_single_eis\<close>, after the read. \<^verbatim>\<open>df.iloc[:, :3]\<close> keeps the first three
  columns, or all of them when there are fewer; giving three names to fewer than three
  columns raises \<^verbatim>\<open>ValueError\<close> (length mismatch). Then each of the three columns is
  coerced, \<^verbatim>\<open>dropna\<close> removes every row that holds a NaN in one of them, and
  \<^verbatim>\<open>astype(float)\<close> changes nothing on float columns.
\<close>

definition coerce_columns :: "cell list list \<Rightarrow> float64 list list" where
  "coerce_columns df = map (\<lambda>r. map (\<lambda>j. to_numeric (cell_at r j)) [0, 1, 2]) df"

definition dropna :: "float64 list list \<Rightarrow> float64 list list" where
  "dropna df = filter (\<lambda>r. list_all (\<lambda>v. v \<noteq> NaN) r) df"

definition load_single_eis :: "cell list list \<Rightarrow> error + float64 spectrum_point list" where
  "load_single_eis df =
     (if min 3 (ncols df) \<noteq> 3 then Inl ValueError
      else Inr (map (\<lambda>r. \<lparr>frequency_hz = r ! 0, z_real_ohm = r ! 1, z_imag_ohm = r ! 2\<rparr>)
                  (dropna (coerce_columns df))))"

text \<open>What the loader's cleaning amounts to, row by row.\<close>

definition row_survives :: "cell list \<Rightarrow> bool" where
  "row_survives r \<longleftrightarrow>
     to_numeric (cell_at r 0) \<noteq> NaN \<and> to_numeric (cell_at r 1) \<noteq> NaN \<and>
     to_numeric (cell_at r 2) \<noteq> NaN"

definition coerce_row :: "cell list \<Rightarrow> float64 spectrum_point" where
  "coerce_row r =
     \<lparr>frequency_hz = to_numeric (cell_at r 0), z_real_ohm = to_numeric (cell_at r 1),
      z_imag_ohm = to_numeric (cell_at r 2)\<rparr>"

definition is_finite :: "float64 \<Rightarrow> bool" where
  "is_finite v \<longleftrightarrow> (case v of Finite x \<Rightarrow> True | _ \<Rightarrow> False)"

section \<open>Feature Extractor: \<^verbatim>\<open>compute_impedance_features\<close>\<close>

text \<open>
  The extractor is modelled on spectra of finite values, and float arithmetic is taken
  as arithmetic on the reals. The numpy reductions it calls: \<^verbatim>\<open>argmin\<close> and
  \<^verbatim>\<open>argmax\<close> return the first index of an extreme value and raise \<^verbatim>\<open>ValueError\<close>
  on an empty array; \<^verbatim>\<open>std\<close> is the population standard deviation.
\<close>

fun first_argmin :: "real list \<Rightarrow> nat" where
  "first_argmin [] = 0"
| "first_argmin [x] = 0"
| "first_argmin (x # xs) = (let i = first_argmin xs in if x \<le> xs ! i then 0 else Suc i)"

fun first_argmax :: "real list \<Rightarrow> nat" where
  "first_argmax [] = 0"
| "first_argmax [x] = 0"
| "first_argmax (x # xs) = (let i = first_argmax xs in if xs ! i \<le> x then 0 else Suc i)"

definition np_argmin :: "real list \<Rightarrow> error + nat" where
  "np_argmin xs = (if xs = [] then Inl ValueError else Inr (first_argmin xs))"

definition np_argmax :: "real list \<Rightarrow> error + nat" where
  "np_argmax xs = (if xs = [] then Inl ValueError else Inr (first_argmax xs))"

definition np_mean :: "real list \<Rightarrow> real" where
  "np_mean xs = sum_list xs / real (length xs)"

definition np_std :: "real list \<Rightarrow> real" where
  "np_std xs = sqrt (np_mean (map (\<lambda>x. \<bar>x - np_mean xs\<bar>\<^sup>2) xs))"

definition np_min :: "real list \<Rightarrow> real" where
  "np_min xs = fold min (tl xs) (hd xs)"

definition np_max :: "real list \<Rightarrow> real" where
  "np_max xs = fold max (tl xs) (hd xs)"

text \<open>\<^verbatim>\<open>np.abs\<close> and \<^verbatim>\<open>np.angle\<close> of the complex number \<open>re + 1j * im\<close>.\<close>

definition np_abs :: "real \<Rightarrow> real \<Rightarrow> real" where
  "np_abs re im = sqrt (re\<^sup>2 + im\<^sup>2)"

definition np_angle :: "real \<Rightarrow> real \<Rightarrow> real" where
  "np_angle re im =
     (if 0 < re then arctan (im / re)
      else if re < 0 then (if 0 \<le> im then arctan (im / re) + pi else arctan (im / re) - pi)
      else if 0 < im then pi / 2
      else if im < 0 then - (pi / 2)
      else 0)"

text \<open>
  \<^verbatim>\<open>str(x)\<close> on a float prints the shortest decimal that reads back as the same
  float, with a fractional part in every case. For a value with a short decimal
  expansion, in the range where Python uses no exponent, these are the digits of the
  value itself, which is what is printed here.
\<close>

fun frac_digits :: "nat \<Rightarrow> real \<Rightarrow> string" where
  "frac_digits 0 x = []"
| "frac_digits (Suc n) x =
     (let d = nat \<lfloor>x * 10\<rfloor>; r = x * 10 - real d
      in digit_char d # (if r = 0 then [] else frac_digits n r))"

definition py_str_float :: "real \<Rightarrow> string" where
  "py_str_float x =
     (if x < 0 then ''-'' else []) @ show_nat (nat \<lfloor>\<bar>x\<bar>\<rfloor>) @ ''.'' @
     frac_digits 17 (\<bar>x\<bar> - real (nat \<lfloor>\<bar>x\<bar>\<rfloor>))"

text \<open>
  A Python dictionary keeps its keys in insertion order: storing under a key that is
  present replaces the value in place, storing under a new key appends.
\<close>

fun dict_set :: "'k \<Rightarrow> 'v \<Rightarrow> ('k \<times> 'v) list \<Rightarrow> ('k \<times> 'v) list" where
  "dict_set k v [] = [(k, v)]"
| "dict_set k v (p # ps) = (if fst p = k then (k, v) # ps else p # dict_set k v ps)"

text \<open>
  \<^verbatim>\<open>sort_values("frequency_hz")\<close> is modelled by the stable insertion sort of the
  library; pandas does not promise an order among rows of equal frequency.
\<close>

definition sort_values :: "(real, 'm) spectrum_point_scheme list \<Rightarrow> (real, 'm) spectrum_point_scheme list" where
  "sort_values grp = sort_key frequency_hz grp"

definition f_targets :: "real list" where
  "f_targets = [0.01, 0.1, 1.0, 10.0, 100.0, 1000.0, 10000.0]"

definition target_suffix :: "real \<Rightarrow> string" where
  "target_suffix f_target = replace ''.'' ''p'' (py_str_float f_target)"

text \<open>The loop over the target frequencies, on the feature dictionary built so far.\<close>

fun sample_targets ::
  "real list \<Rightarrow> real list \<Rightarrow> real list \<Rightarrow> (string \<times> real) list \<Rightarrow> real list \<Rightarrow>
   error + (string \<times> real) list" where
  "sample_targets freq mag phase features [] = Inr features"
| "sample_targets freq mag phase features (f_target # rest) =
     (case np_argmin (map (\<lambda>f. \<bar>f - f_target\<bar>) freq) of
        Inl e \<Rightarrow> Inl e
      | Inr idx \<Rightarrow>
          sample_targets freq mag phase
            (dict_set (''phase_f'' @ target_suffix f_target) (phase ! idx)
               (dict_set (''Zmag_f'' @ target_suffix f_target) (mag ! idx) features))
            rest)"

definition summary_features ::
  "real list \<Rightarrow> real list \<Rightarrow> real list \<Rightarrow> nat \<Rightarrow> nat \<Rightarrow> (string \<times> real) list" where
  "summary_features z_real mag phase idx_hf idx_lf =
     [(''R_hf_ohm'', z_real ! idx_hf),
      (''R_lf_ohm'', z_real ! idx_lf),
      (''delta_R_ohm'', z_real ! idx_lf - z_real ! idx_hf),
      (''Zmag_mean'', np_mean mag),
      (''Zmag_std'', np_std mag),
      (''Zmag_min'', np_min mag),
      (''Zmag_max'', np_max mag),
      (''phase_mean'', np_mean phase),
      (''phase_std'', np_std phase)]"

definition compute_impedance_features ::
  "(real, 'm) spectrum_point_scheme list \<Rightarrow> error + (string \<times> real) list" where
  "compute_impedance_features grp =
     (let g = sort_values grp;
          freq = map frequency_hz g;
          z_real = map z_real_ohm g;
          z_imag = map z_imag_ohm g;
          mag = map2 np_abs z_real z_imag;
          phase = map2 np_angle z_real z_imag
      in (case np_argmax freq of
            Inl e \<Rightarrow> Inl e
          | Inr idx_hf \<Rightarrow>
              (case np_argmin freq of
                 Inl e \<Rightarrow> Inl e
               | Inr idx_lf \<Rightarrow>
                   sample_targets freq mag phase
                     (summary_features z_real mag phase idx_hf idx_lf) f_targets)))"

text \<open>
  The keys of the dictionary that \<^verbatim>\<open>compute_impedance_features\<close> builds, in the
  order in which the function stores them.
\<close>

definition feature_names :: "string list" where
  "feature_names =
     [''R_hf_ohm'', ''R_lf_ohm'', ''delta_R_ohm'', ''Zmag_mean'', ''Zmag_std'', ''Zmag_min'',
      ''Zmag_max'', ''phase_mean'', ''phase_std'',
      ''Zmag_f0p01'', ''phase_f0p01'', ''Zmag_f0p1'', ''phase_f0p1'', ''Zmag_f1p0'', ''phase_f1p0'',
      ''Zmag_f10p0'', ''phase_f10p0'', ''Zmag_f100p0'', ''phase_f100p0'',
      ''Zmag_f1000p0'', ''phase_f1000p0'', ''Zmag_f10000p0'', ''phase_f10000p0'']"

section \<open>Feature Table Builder: \<^verbatim>\<open>build_impedance_feature_table\<close>\<close>

text \<open>
  A row of the long-format table: the three spectrum columns and the identity of the
  test they belong to.
\<close>

record 'v long_row = "'v spectrum_point" +
  identity :: test_identity

definition GROUP_COLS :: "string list" where
  "GROUP_COLS = [''cell_id'', ''soh_pct'', ''temp_c'', ''soc_pct'']"

definition group_key :: "'v long_row \<Rightarrow> int \<times> int \<times> int \<times> int" where
  "group_key r =
     (cell_id (identity r), soh_pct (identity r), temp_c (identity r), soc_pct (identity r))"

text \<open>
  \<^verbatim>\<open>groupby(GROUP_COLS)\<close>, iterated: one pair of key and group for each distinct key,
  the keys in ascending order, each group holding the rows of its key in their order.
\<close>

definition groupby :: "'v long_row list \<Rightarrow> ((int \<times> int \<times> int \<times> int) \<times> 'v long_row list) list" where
  "groupby df =
     map (\<lambda>k. (k, filter (\<lambda>r. group_key r = k) df)) (sort (remdups (map group_key df)))"

text \<open>A cell of the feature table is an integer (a key column) or a float.\<close>

datatype pyval = IntV int | FloatV real

definition key_values :: "int \<times> int \<times> int \<times> int \<Rightarrow> pyval list" where
  "key_values keys = (case keys of (c, h, t, s) \<Rightarrow> [IntV c, IntV h, IntV t, IntV s])"

text \<open>\<^verbatim>\<open>record.update(feats)\<close>: the features are stored one after the other.\<close>

definition dict_update :: "(string \<times> pyval) list \<Rightarrow> (string \<times> real) list \<Rightarrow> (string \<times> pyval) list" where
  "dict_update record feats = fold (\<lambda>kv d. dict_set (fst kv) (FloatV (snd kv)) d) feats record"

text \<open>
  \<^verbatim>\<open>pd.DataFrame(records)\<close> on a list of dictionaries: the columns are the keys in
  the order in which they are first met, so that an empty list gives a frame without
  columns.
\<close>

record feature_table =
  columns :: "string list"
  records :: "(string \<times> pyval) list list"

definition first_seen :: "'a list \<Rightarrow> 'a list" where
  "first_seen xs = rev (remdups (rev xs))"

definition DataFrame :: "(string \<times> pyval) list list \<Rightarrow> feature_table" where
  "DataFrame recs = \<lparr>columns = first_seen (concat (map (map fst) recs)), records = recs\<rparr>"

fun feature_loop ::
  "((int \<times> int \<times> int \<times> int) \<times> real long_row list) list \<Rightarrow> (string \<times> pyval) list list \<Rightarrow>
   error + (string \<times> pyval) list list" where
  "feature_loop [] feature_records = Inr feature_records"
| "feature_loop ((keys, grp) # rest) feature_records =
     (case compute_impedance_features grp of
        Inl e \<Rightarrow> Inl e
      | Inr feats \<Rightarrow>
          feature_loop rest
            (feature_records @ [dict_update (zip GROUP_COLS (key_values keys)) feats]))"

definition build_impedance_feature_table :: "real long_row list \<Rightarrow> error + feature_table" where
  "build_impedance_feature_table eis_long_df =
     (case feature_loop (groupby eis_long_df) [] of
        Inl e \<Rightarrow> Inl e
      | Inr feature_records \<Rightarrow> Inr (DataFrame feature_records))"


section \<open>Properties of the Filename Decoder\<close>


























lemma digit_char_simps:
  "digit_char 0 = CHR ''0''" "digit_char 1 = CHR ''1''" "digit_char 2 = CHR ''2''"
  "digit_char 3 = CHR ''3''" "digit_char 4 = CHR ''4''" "digit_char 5 = CHR ''5''"
  "digit_char 6 = CHR ''6''" "digit_char 7 = CHR ''7''" "digit_char 8 = CHR ''8''"
  "digit_char 9 = CHR ''9''" "digit_char (Suc 0) = CHR ''1''"
  by code_simp+









section \<open>Properties of the Spectrum Loader\<close>

lemmas str_to_float_eval =
  str_to_float_def take_sign_def is_space_ascii_def parse_decimal_def parse_exponent_def
  is_digit_def lower_char_def digits_val_def digit_val_def

lemma dropna_coerce_columns:
  "map (\<lambda>r. \<lparr>frequency_hz = r ! 0, z_real_ohm = r ! 1, z_imag_ohm = r ! 2\<rparr>)
     (dropna (coerce_columns df)) = map coerce_row (filter row_survives df)"
  by (induction df) (simp_all add: dropna_def coerce_columns_def row_survives_def coerce_row_def)

lemma load_single_eis_rows:
  "load_single_eis df =
     (if ncols df < 3 then Inl ValueError else Inr (map coerce_row (filter row_survives df)))"
  unfolding load_single_eis_def dropna_coerce_columns by auto

text \<open>
  Claim C4. The loader keeps a row exactly when each of its first three cells coerces
  to a number: on a source of at least three columns it returns the coerced values of
  the surviving rows, in their order and unchanged, and every other row is left out
  whatever its position. A header text in the second of three rows gives a spectrum of
  two rows and no error.
\<close>

theorem loader_keeps_coercible_rows:
  "load_single_eis df =
     (if ncols df < 3 then Inl ValueError else Inr (map coerce_row (filter row_survives df)))"
  by (rule load_single_eis_rows)

theorem loader_keeps_coercible_rows_witness:
  "load_single_eis
     [[Num (Finite 1000), Num (Finite 2), Num (Finite (- 1))],
      [Text ''Freq'', Num (Finite 3), Num (Finite (- 2))],
      [Num (Finite 10), Num (Finite 4), Num (Finite (- 3))]] =
   Inr [\<lparr>frequency_hz = Finite 1000, z_real_ohm = Finite 2, z_imag_ohm = Finite (- 1)\<rparr>,
        \<lparr>frequency_hz = Finite 10, z_real_ohm = Finite 4, z_imag_ohm = Finite (- 3)\<rparr>]"
  using loader_keeps_coercible_rows
    [of "[[Num (Finite 1000), Num (Finite 2), Num (Finite (- 1))],
          [Text ''Freq'', Num (Finite 3), Num (Finite (- 2))],
          [Num (Finite 10), Num (Finite 4), Num (Finite (- 3))]]"]
  by (simp add: ncols_def row_survives_def coerce_row_def cell_at_def str_to_float_eval)

text \<open>
  Claim C1, as amended. \<^verbatim>\<open>load_single_eis\<close> has no check on the number of rows it
  returns: on a source of at least three columns in which no row survives the coercion
  it returns the empty spectrum and raises nothing.
\<close>

theorem loader_returns_empty_spectrum:
  assumes "3 \<le> ncols df" and "\<forall>r \<in> set df. \<not> row_survives r"
  shows "load_single_eis df = Inr []"
proof -
  from assms(2) have "filter row_survives df = []"
    by (simp add: filter_empty_conv)
  with assms(1) show ?thesis
    by (simp add: load_single_eis_rows)
qed

theorem loader_returns_empty_spectrum_witness:
  "3 \<le> ncols [[Blank, Num (Finite 1), Num (Finite 2)], [Text ''n/a'', Text ''n/a'', Text ''n/a'']]
   \<and> \<not> row_survives [Blank, Num (Finite 1), Num (Finite 2)]
   \<and> \<not> row_survives [Text ''n/a'', Text ''n/a'', Text ''n/a'']
   \<and> load_single_eis
        [[Blank, Num (Finite 1), Num (Finite 2)], [Text ''n/a'', Text ''n/a'', Text ''n/a'']] = Inr []"
proof -
  let ?df = "[[Blank, Num (Finite 1), Num (Finite 2)], [Text ''n/a'', Text ''n/a'', Text ''n/a'']]"
  have h1: "3 \<le> ncols ?df"
    by (simp add: ncols_def)
  have h2: "\<forall>r \<in> set ?df. \<not> row_survives r"
    by (simp add: row_survives_def cell_at_def str_to_float_eval)
  from loader_returns_empty_spectrum [OF h1 h2] h1 h2 show ?thesis
    by simp
qed

text \<open>
  Claim C1 as stated fails: a sheet that holds a header row and nothing else has no
  surviving row, and the loader returns an empty spectrum instead of an error.
\<close>

theorem loader_header_only_counterexample:
  "\<not> row_survives [Text ''Freq'', Text ''Zreal'', Text ''Zimag''] \<and>
   load_single_eis [[Text ''Freq'', Text ''Zreal'', Text ''Zimag'']] = Inr []"
  by (simp add: load_single_eis_def ncols_def coerce_columns_def dropna_def row_survives_def
      cell_at_def str_to_float_eval)

text \<open>
  Claim C9, as amended. No row that the loader returns holds a NaN in one of its three
  fields, and every returned row is the coercion of a row of the source: a cell that is
  not numeric removes its row and is never replaced by a value.
\<close>

theorem loader_rows_hold_no_nan:
  assumes "load_single_eis df = Inr spectrum" and "p \<in> set spectrum"
  shows "frequency_hz p \<noteq> NaN \<and> z_real_ohm p \<noteq> NaN \<and> z_imag_ohm p \<noteq> NaN \<and>
    (\<exists>r \<in> set df. p = coerce_row r)"
proof -
  from assms(1) have "spectrum = map coerce_row (filter row_survives df)"
    by (simp add: load_single_eis_rows split: if_splits)
  with assms(2) obtain r where r: "r \<in> set df" "row_survives r" "p = coerce_row r"
    by auto
  then show ?thesis
    by (auto simp: row_survives_def coerce_row_def)
qed

theorem loader_rows_hold_no_nan_witness:
  "load_single_eis [[Num (Finite 5), Text ''0.25'', Num (Finite 7)], [Num (Finite 6), Text ''-'', Blank]]
     = Inr [\<lparr>frequency_hz = Finite 5, z_real_ohm = Finite (1 / 4), z_imag_ohm = Finite 7\<rparr>]
   \<and> \<lparr>frequency_hz = Finite 5, z_real_ohm = Finite (1 / 4), z_imag_ohm = Finite 7\<rparr>
       \<in> set [\<lparr>frequency_hz = Finite 5, z_real_ohm = Finite (1 / 4), z_imag_ohm = Finite 7\<rparr>]
   \<and> Finite (1 / 4) \<noteq> NaN
   \<and> (\<exists>r \<in> set [[Num (Finite 5), Text ''0.25'', Num (Finite 7)], [Num (Finite 6), Text ''-'', Blank]].
        \<lparr>frequency_hz = Finite 5, z_real_ohm = Finite (1 / 4), z_imag_ohm = Finite 7\<rparr> = coerce_row r)"
proof -
  let ?df = "[[Num (Finite 5), Text ''0.25'', Num (Finite 7)], [Num (Finite 6), Text ''-'', Blank]]"
  let ?p = "\<lparr>frequency_hz = Finite 5, z_real_ohm = Finite (1 / 4), z_imag_ohm = Finite 7\<rparr>"
  have h1: "load_single_eis ?df = Inr [?p]"
    by (simp add: load_single_eis_def ncols_def coerce_columns_def dropna_def cell_at_def
        str_to_float_eval)
  have h2: "?p \<in> set [?p]"
    by simp
  from loader_rows_hold_no_nan [OF h1 h2] h1 h2 show ?thesis
    by simp
qed

text \<open>
  Claim C9 as stated fails: \<^verbatim>\<open>dropna\<close> removes NaN only, so a cell that coerces to
  an infinity stays, and the returned row holds a value that is not finite.
\<close>

theorem loader_keeps_infinity_counterexample:
  "load_single_eis [[Text ''inf'', Num (Finite 1), Num (Finite 2)]] =
     Inr [\<lparr>frequency_hz = PosInf, z_real_ohm = Finite 1, z_imag_ohm = Finite 2\<rparr>]
   \<and> \<not> is_finite PosInf"
  by (simp add: load_single_eis_def ncols_def coerce_columns_def dropna_def cell_at_def
      str_to_float_eval is_finite_def)

section \<open>Properties of the Feature Extractor\<close>




lemma np_argmin_nonempty: "xs \<noteq> [] \<Longrightarrow> np_argmin xs = Inr (first_argmin xs)"
  by (simp add: np_argmin_def)

lemma np_argmax_nonempty: "xs \<noteq> [] \<Longrightarrow> np_argmax xs = Inr (first_argmax xs)"
  by (simp add: np_argmax_def)

lemma sort_values_props:
  "length (sort_values grp) = length grp"
  "sorted (map frequency_hz (sort_values grp))"
  "set (sort_values grp) = set grp"
  by (simp_all add: sort_values_def)


lemma keys_dict_set:
  "map fst (dict_set k v d) = (if k \<in> set (map fst d) then map fst d else map fst d @ [k])"
  by (induction d) auto

lemma sample_targets_nonempty:
  assumes "freq \<noteq> []"
  shows "sample_targets freq mag phase features ts =
    Inr (fold (\<lambda>t feats.
           dict_set (''phase_f'' @ target_suffix t)
             (phase ! first_argmin (map (\<lambda>f. \<bar>f - t\<bar>) freq))
             (dict_set (''Zmag_f'' @ target_suffix t)
                (mag ! first_argmin (map (\<lambda>f. \<bar>f - t\<bar>) freq)) feats))
         ts features)"
  using assms by (induction ts arbitrary: features) (simp_all add: np_argmin_nonempty)

lemma frac_digits_numeral:
  "frac_digits (numeral k) x =
     (let d = nat \<lfloor>x * 10\<rfloor>; r = x * 10 - real d
      in digit_char d # (if r = 0 then [] else frac_digits (pred_numeral k) r))"
  by (simp add: numeral_eq_Suc)

lemma target_suffix_vals:
  "target_suffix (1 / 100) = ''0p01''" "target_suffix (1 / 10) = ''0p1''"
  "target_suffix 1 = ''1p0''" "target_suffix 10 = ''10p0''" "target_suffix 100 = ''100p0''"
  "target_suffix 1000 = ''1000p0''" "target_suffix 10000 = ''10000p0''"
  by (simp_all add: target_suffix_def py_str_float_def show_nat.simps frac_digits_numeral
      digit_char_simps)

lemma f_targets_list: "f_targets = [1 / 100, 1 / 10, 1, 10, 100, 1000, 10000]"
  by (simp add: f_targets_def)

lemma compute_impedance_features_nonempty:
  assumes "grp \<noteq> []"
  shows "compute_impedance_features grp =
    (let g = sort_values grp;
         freq = map frequency_hz g;
         z_real = map z_real_ohm g;
         mag = map (\<lambda>p. np_abs (z_real_ohm p) (z_imag_ohm p)) g;
         phase = map (\<lambda>p. np_angle (z_real_ohm p) (z_imag_ohm p)) g
     in Inr (fold (\<lambda>t feats.
           dict_set (''phase_f'' @ target_suffix t)
             (phase ! first_argmin (map (\<lambda>f. \<bar>f - t\<bar>) freq))
             (dict_set (''Zmag_f'' @ target_suffix t)
                (mag ! first_argmin (map (\<lambda>f. \<bar>f - t\<bar>) freq)) feats))
         f_targets
         (summary_features z_real mag phase (first_argmax freq) (first_argmin freq))))"
proof -
  from assms have ne: "map frequency_hz (sort_values grp) \<noteq> []"
    using sort_values_props(1) [of grp] by (metis length_0_conv map_is_Nil_conv)
  have m: "map2 f (map a xs) (map b xs) = map (\<lambda>p. f (a p) (b p)) xs" for f :: "real \<Rightarrow> real \<Rightarrow> real"
    and a b :: "'c \<Rightarrow> real" and xs
    by (induction xs) simp_all
  show ?thesis
    unfolding compute_impedance_features_def Let_def m
    by (simp only: np_argmax_nonempty [OF ne] np_argmin_nonempty [OF ne] sum.case
        sample_targets_nonempty [OF ne])
qed

lemma compute_impedance_features_keys:
  assumes "grp \<noteq> []"
  shows "\<exists>feats. compute_impedance_features grp = Inr feats \<and> map fst feats = feature_names"
  unfolding compute_impedance_features_nonempty [OF assms] Let_def
  by (simp add: f_targets_list target_suffix_vals keys_dict_set summary_features_def
      feature_names_def)


lemma feature_names_length: "length feature_names = 23"
  by (simp add: feature_names_def)

lemma feature_names_distinct: "distinct feature_names"
  by (simp add: feature_names_def)

text \<open>
  Claim C5. On a spectrum of at least one point the extractor raises nothing and
  returns a dictionary of exactly 23 keys, all different: the nine summary features and,
  for each of the seven target frequencies, a magnitude and a phase.
\<close>

theorem extractor_returns_23_features:
  assumes "grp \<noteq> []"
  shows "\<exists>feats. compute_impedance_features grp = Inr feats \<and>
    map fst feats =
      [''R_hf_ohm'', ''R_lf_ohm'', ''delta_R_ohm'', ''Zmag_mean'', ''Zmag_std'', ''Zmag_min'',
       ''Zmag_max'', ''phase_mean'', ''phase_std'',
       ''Zmag_f0p01'', ''phase_f0p01'', ''Zmag_f0p1'', ''phase_f0p1'',
       ''Zmag_f1p0'', ''phase_f1p0'', ''Zmag_f10p0'', ''phase_f10p0'',
       ''Zmag_f100p0'', ''phase_f100p0'', ''Zmag_f1000p0'', ''phase_f1000p0'',
       ''Zmag_f10000p0'', ''phase_f10000p0''] \<and>
    length feats = 23 \<and> distinct (map fst feats)"
proof -
  from compute_impedance_features_keys [OF assms] obtain feats
    where f: "compute_impedance_features grp = Inr feats" and k: "map fst feats = feature_names"
    by (elim exE conjE)
  have "length (map fst feats) = 23"
    unfolding k by (rule feature_names_length)
  then have l: "length feats = 23"
    by (simp only: length_map)
  have d: "distinct (map fst feats)"
    unfolding k by (rule feature_names_distinct)
  show ?thesis
    apply (rule exI [of _ feats])
    apply (intro conjI)
       apply (rule f)
      apply (simp only: k feature_names_def)
     apply (rule l)
    apply (rule d)
    done
qed

theorem extractor_returns_23_features_witness:
  "[\<lparr>frequency_hz = 1000 :: real, z_real_ohm = 3, z_imag_ohm = - 4\<rparr>] \<noteq> [] \<and>
   (\<exists>feats. compute_impedance_features [\<lparr>frequency_hz = 1000, z_real_ohm = 3, z_imag_ohm = - 4\<rparr>]
       = Inr feats \<and> length feats = 23 \<and> distinct (map fst feats))"
proof -
  have h: "[\<lparr>frequency_hz = 1000 :: real, z_real_ohm = 3, z_imag_ohm = - 4\<rparr>] \<noteq> []"
    by (rule list.distinct(2))
  from extractor_returns_23_features [OF h] obtain feats where
    "compute_impedance_features [\<lparr>frequency_hz = 1000, z_real_ohm = 3, z_imag_ohm = - 4\<rparr>] = Inr feats"
    "length feats = 23" "distinct (map fst feats)"
    by (elim exE conjE)
  then have "\<exists>feats. compute_impedance_features [\<lparr>frequency_hz = 1000, z_real_ohm = 3, z_imag_ohm = - 4\<rparr>]
       = Inr feats \<and> length feats = 23 \<and> distinct (map fst feats)"
    by (intro exI [of _ feats] conjI)
  with h show ?thesis
    by (rule conjI)
qed



section \<open>Properties of the Feature Table Builder\<close>

lemma keys_dict_update:
  "distinct (map fst feats) \<Longrightarrow> set (map fst feats) \<inter> set (map fst d) = {} \<Longrightarrow>
   map fst (dict_update d feats) = map fst d @ map fst feats"
  unfolding dict_update_def
proof (induction feats arbitrary: d)
  case Nil
  then show ?case by simp
next
  case (Cons kv feats)
  let ?r = "dict_set (fst kv) (FloatV (snd kv)) d"
  from Cons.prems have new: "fst kv \<notin> set (map fst d)"
    by auto
  then have k: "map fst ?r = map fst d @ [fst kv]"
    by (simp add: keys_dict_set)
  from Cons.prems have "distinct (map fst feats)" "set (map fst feats) \<inter> set (map fst ?r) = {}"
    unfolding k by auto
  from Cons.IH [OF this] show ?case
    unfolding k by simp
qed


lemma GROUP_COLS_not_features: "set feature_names \<inter> set GROUP_COLS = {}"
  by (simp add: feature_names_def GROUP_COLS_def)

lemma GROUP_COLS_distinct: "distinct GROUP_COLS"
  by (simp add: GROUP_COLS_def)

lemma key_columns: "map fst (zip GROUP_COLS (key_values k)) = GROUP_COLS"
  by (cases k) (simp add: GROUP_COLS_def key_values_def)


lemma record_columns:
  assumes "map fst feats = feature_names"
  shows "map fst (dict_update (zip GROUP_COLS (key_values k)) feats) = GROUP_COLS @ feature_names"
proof -
  have "map fst (dict_update (zip GROUP_COLS (key_values k)) feats) =
      map fst (zip GROUP_COLS (key_values k)) @ map fst feats"
    by (rule keys_dict_update)
      (simp_all only: assms key_columns feature_names_distinct GROUP_COLS_not_features)
  then show ?thesis
    by (simp only: assms key_columns)
qed


lemma feature_loop_records:
  assumes "\<forall>kg \<in> set groups. snd kg \<noteq> []"
  shows "\<exists>recs. feature_loop groups acc = Inr (acc @ recs) \<and>
    list_all2 (\<lambda>kg rec. \<exists>feats. compute_impedance_features (snd kg) = Inr feats \<and>
        map fst feats = feature_names \<and>
        rec = dict_update (zip GROUP_COLS (key_values (fst kg))) feats) groups recs"
  using assms
proof (induction groups arbitrary: acc)
  case Nil
  then show ?case by simp
next
  case (Cons kg groups)
  obtain k g where kg: "kg = (k, g)"
    by (cases kg)
  with Cons.prems have "g \<noteq> []"
    by simp
  from compute_impedance_features_keys [OF this] obtain feats
    where f: "compute_impedance_features g = Inr feats" "map fst feats = feature_names"
    by (elim exE conjE)
  let ?rec = "dict_update (zip GROUP_COLS (key_values k)) feats"
  from Cons.prems have "\<forall>kg \<in> set groups. snd kg \<noteq> []"
    by simp
  from Cons.IH [OF this, of "acc @ [?rec]"] obtain recs
    where r: "feature_loop groups (acc @ [?rec]) = Inr ((acc @ [?rec]) @ recs)"
      and l: "list_all2 (\<lambda>kg rec. \<exists>feats. compute_impedance_features (snd kg) = Inr feats \<and>
        map fst feats = feature_names \<and>
        rec = dict_update (zip GROUP_COLS (key_values (fst kg))) feats) groups recs"
    by (elim exE conjE)
  have 1: "feature_loop (kg # groups) acc = Inr (acc @ ?rec # recs)"
    unfolding kg using f(1) r by simp
  have 2: "list_all2 (\<lambda>kg rec. \<exists>feats. compute_impedance_features (snd kg) = Inr feats \<and>
        map fst feats = feature_names \<and>
        rec = dict_update (zip GROUP_COLS (key_values (fst kg))) feats) (kg # groups) (?rec # recs)"
    unfolding kg using f l by (intro list_all2_Cons [THEN iffD2] conjI exI [of _ feats]) simp_all
  from 1 2 show ?case
    by (intro exI [of _ "?rec # recs"] conjI)
qed

lemma groupby_nonempty: "\<forall>kg \<in> set (groupby df). snd kg \<noteq> []"
  by (auto simp: groupby_def filter_empty_conv)

lemma first_seen_prefix:
  assumes "distinct ks" and "set ys \<subseteq> set ks"
  shows "first_seen (ks @ ys) = ks"
proof -
  from assms(2) have "set (rev ys) \<subseteq> set (rev ks)"
    by simp
  then have "remdups (rev ys @ rev ks) = remdups (rev ks)"
    by (rule remdups_append)
  also have "\<dots> = rev ks"
    using assms(1) by (simp add: distinct_remdups_id)
  finally show ?thesis
    by (simp add: first_seen_def)
qed

lemma DataFrame_columns:
  assumes "distinct ks" and "recs \<noteq> []" and "\<forall>r \<in> set recs. map fst r = ks"
  shows "columns (DataFrame recs) = ks"
proof -
  from assms(2) obtain r rs where recs: "recs = r # rs"
    by (cases recs) auto
  with assms(3) have r: "map fst r = ks" and rs: "\<forall>r \<in> set rs. map fst r = ks"
    by simp_all
  from rs have "set (concat (map (map fst) rs)) \<subseteq> set ks"
    by auto
  from first_seen_prefix [OF assms(1) this] show ?thesis
    unfolding recs DataFrame_def by (simp add: r)
qed

lemma build_records:
  "\<exists>recs. build_impedance_feature_table df = Inr (DataFrame recs) \<and>
     list_all2 (\<lambda>k rec. \<exists>feats.
         compute_impedance_features (filter (\<lambda>r. group_key r = k) df) = Inr feats \<and>
         map fst feats = feature_names \<and>
         rec = dict_update (zip GROUP_COLS (key_values k)) feats)
       (sort (remdups (map group_key df))) recs"
proof -
  from feature_loop_records [OF groupby_nonempty, of df "[]"] obtain recs
    where r: "feature_loop (groupby df) [] = Inr ([] @ recs)"
      and l: "list_all2 (\<lambda>kg rec. \<exists>feats. compute_impedance_features (snd kg) = Inr feats \<and>
        map fst feats = feature_names \<and>
        rec = dict_update (zip GROUP_COLS (key_values (fst kg))) feats) (groupby df) recs"
    by (elim exE conjE)
  from r have b: "build_impedance_feature_table df = Inr (DataFrame recs)"
    by (simp add: build_impedance_feature_table_def)
  from l have "list_all2 (\<lambda>k rec. \<exists>feats.
         compute_impedance_features (filter (\<lambda>r. group_key r = k) df) = Inr feats \<and>
         map fst feats = feature_names \<and>
         rec = dict_update (zip GROUP_COLS (key_values k)) feats)
       (sort (remdups (map group_key df))) recs"
    by (simp add: groupby_def list_all2_map1)
  with b show ?thesis
    by (intro exI [of _ recs] conjI)
qed





lemma list_all2_all_right:
  "list_all2 P xs ys \<Longrightarrow> (\<And>x y. P x y \<Longrightarrow> Q y) \<Longrightarrow> \<forall>y \<in> set ys. Q y"
  by (induction rule: list_all2_induct) simp_all

lemma table_columns_distinct: "distinct (GROUP_COLS @ feature_names)"
  using GROUP_COLS_distinct feature_names_distinct GROUP_COLS_not_features
  by (simp only: distinct_append Int_commute [of "set GROUP_COLS"] simp_thms)

lemma build_columns:
  assumes "df \<noteq> []"
  shows "\<exists>tbl. build_impedance_feature_table df = Inr tbl \<and>
    columns tbl = GROUP_COLS @ feature_names"
proof -
  from build_records [of df] obtain recs
    where b: "build_impedance_feature_table df = Inr (DataFrame recs)"
      and l: "list_all2 (\<lambda>k rec. \<exists>feats.
         compute_impedance_features (filter (\<lambda>r. group_key r = k) df) = Inr feats \<and>
         map fst feats = feature_names \<and>
         rec = dict_update (zip GROUP_COLS (key_values k)) feats)
       (sort (remdups (map group_key df))) recs"
    by (elim exE conjE)
  from assms have "sort (remdups (map group_key df)) \<noteq> []"
    by (metis list.map_disc_iff remdups_eq_nil_iff set_empty2 set_sort)
  with list_all2_lengthD [OF l] have ne: "recs \<noteq> []"
    by auto
  from l have all: "\<forall>r \<in> set recs. map fst r = GROUP_COLS @ feature_names"
    by (rule list_all2_all_right) (auto simp: record_columns)
  from DataFrame_columns [OF table_columns_distinct ne all] b show ?thesis
    by (intro exI [of _ "DataFrame recs"] conjI)
qed

lemma table_columns_list:
  "GROUP_COLS @ feature_names =
     [''cell_id'', ''soh_pct'', ''temp_c'', ''soc_pct'',
      ''R_hf_ohm'', ''R_lf_ohm'', ''delta_R_ohm'', ''Zmag_mean'', ''Zmag_std'', ''Zmag_min'',
      ''Zmag_max'', ''phase_mean'', ''phase_std'',
      ''Zmag_f0p01'', ''phase_f0p01'', ''Zmag_f0p1'', ''phase_f0p1'',
      ''Zmag_f1p0'', ''phase_f1p0'', ''Zmag_f10p0'', ''phase_f10p0'',
      ''Zmag_f100p0'', ''phase_f100p0'', ''Zmag_f1000p0'', ''phase_f1000p0'',
      ''Zmag_f10000p0'', ''phase_f10000p0'']"
  by (simp add: GROUP_COLS_def feature_names_def)

lemma table_columns_by_target:
  "GROUP_COLS @ feature_names =
     GROUP_COLS @
     [''R_hf_ohm'', ''R_lf_ohm'', ''delta_R_ohm'', ''Zmag_mean'', ''Zmag_std'', ''Zmag_min'',
      ''Zmag_max'', ''phase_mean'', ''phase_std''] @
     concat (map (\<lambda>t. [''Zmag_f'' @ target_suffix t, ''phase_f'' @ target_suffix t]) f_targets)"
  by (simp add: feature_names_def f_targets_list target_suffix_vals)

lemma table_columns_length: "length (GROUP_COLS @ feature_names) = 27"
  by (simp add: GROUP_COLS_def feature_names_length)

text \<open>
  Claim C8, as amended. For a long-format table of at least one row the feature table
  has exactly 27 columns: the four key columns, the nine summary features, and for
  each of the seven target frequencies \<^verbatim>\<open>Zmag_f<tag>\<close> and \<^verbatim>\<open>phase_f<tag>\<close>, the
  tag being the string form of the frequency with the decimal point replaced by the
  letter p, which gives \<^verbatim>\<open>0p01\<close> for 0.01.
\<close>

theorem feature_table_has_27_columns:
  assumes "df \<noteq> []"
  shows "\<exists>tbl. build_impedance_feature_table df = Inr tbl \<and>
    length (columns tbl) = 27 \<and>
    columns tbl =
      [''cell_id'', ''soh_pct'', ''temp_c'', ''soc_pct'',
       ''R_hf_ohm'', ''R_lf_ohm'', ''delta_R_ohm'', ''Zmag_mean'', ''Zmag_std'', ''Zmag_min'',
       ''Zmag_max'', ''phase_mean'', ''phase_std'',
       ''Zmag_f0p01'', ''phase_f0p01'', ''Zmag_f0p1'', ''phase_f0p1'',
       ''Zmag_f1p0'', ''phase_f1p0'', ''Zmag_f10p0'', ''phase_f10p0'',
       ''Zmag_f100p0'', ''phase_f100p0'', ''Zmag_f1000p0'', ''phase_f1000p0'',
       ''Zmag_f10000p0'', ''phase_f10000p0''] \<and>
    columns tbl =
      GROUP_COLS @
      [''R_hf_ohm'', ''R_lf_ohm'', ''delta_R_ohm'', ''Zmag_mean'', ''Zmag_std'', ''Zmag_min'',
       ''Zmag_max'', ''phase_mean'', ''phase_std''] @
      concat (map (\<lambda>t. [''Zmag_f'' @ target_suffix t, ''phase_f'' @ target_suffix t]) f_targets) \<and>
    target_suffix 0.01 = ''0p01''"
proof -
  from build_columns [OF assms] obtain tbl
    where b: "build_impedance_feature_table df = Inr tbl"
      and c: "columns tbl = GROUP_COLS @ feature_names"
    by (elim exE conjE)
  have n: "length (columns tbl) = 27"
    unfolding c by (rule table_columns_length)
  note c1 = c [unfolded table_columns_list]
  note c2 = trans [OF c table_columns_by_target]
  have ts: "target_suffix 0.01 = ''0p01''"
    using target_suffix_vals(1) by simp
  from b n c1 c2 ts show ?thesis
    by (intro exI [of _ tbl] conjI)
qed

theorem feature_table_has_27_columns_witness:
  "[\<lparr>frequency_hz = 1000 :: real, z_real_ohm = 2, z_imag_ohm = - 1,
      identity = \<lparr>cell_id = 1, soh_pct = 100, temp_c = 25, soc_pct = 50, capacity_code = 1000\<rparr>\<rparr>]
     \<noteq> [] \<and>
   (\<exists>tbl. build_impedance_feature_table
       [\<lparr>frequency_hz = 1000 :: real, z_real_ohm = 2, z_imag_ohm = - 1,
          identity = \<lparr>cell_id = 1, soh_pct = 100, temp_c = 25, soc_pct = 50, capacity_code = 1000\<rparr>\<rparr>]
       = Inr tbl \<and> length (columns tbl) = 27)"
proof -
  let ?df = "[\<lparr>frequency_hz = 1000 :: real, z_real_ohm = 2, z_imag_ohm = - 1,
      identity = \<lparr>cell_id = 1, soh_pct = 100, temp_c = 25, soc_pct = 50, capacity_code = 1000\<rparr>\<rparr>]"
  have h: "?df \<noteq> []"
    by (rule list.distinct(2))
  from feature_table_has_27_columns [OF h] obtain tbl
    where "build_impedance_feature_table ?df = Inr tbl" "length (columns tbl) = 27"
    by (elim exE conjE)
  then have "\<exists>tbl. build_impedance_feature_table ?df = Inr tbl \<and> length (columns tbl) = 27"
    by (intro exI [of _ tbl] conjI)
  with h show ?thesis
    by (rule conjI)
qed

text \<open>
  Claim C8 as stated fails on the empty input: the columns of the frame come from the
  records, and without any record the feature table has no column at all.
\<close>

theorem empty_feature_table_counterexample:
  "map_sum id columns (build_impedance_feature_table ([] :: real long_row list)) = Inr []"
  by (simp add: build_impedance_feature_table_def groupby_def DataFrame_def first_seen_def)

text \<open>
  Claim C10. On a long-format table without rows the builder raises nothing and returns
  the empty feature table, which has no record.
\<close>

theorem empty_dataset_gives_empty_table:
  "build_impedance_feature_table [] = Inr \<lparr>columns = [], records = []\<rparr>"
  by (simp add: build_impedance_feature_table_def groupby_def DataFrame_def first_seen_def)

end
